theory Spec2Isabelle
  imports Complex_Main "HOL-Library.AList"
begin

section \<open>ChemSpiPy: the transport client and the search facade of \<open>chemspipy/api.py\<close>\<close>

text \<open>
  The module is Python. Its values are dynamically typed, its methods raise exceptions,
  and \<open>request\<close> mutates the headers of the shared HTTP session and talks to a remote
  service. The embedding makes each of these explicit:
  \<^item> Python values are the datatype \<open>pyval\<close>;
  \<^item> every \<open>raise\<close> (also the implicit ones: a missing argument, an unbound name, a
    missing key) is a value \<open>Inl e\<close> of the result type \<open>error + 'a\<close>;
  \<^item> the object \<open>self\<close> is a record that every method takes and returns;
  \<^item> the remote service is a function from the calls made so far and the present call to
    an outcome, and the calls handed to the HTTP library are collected in a log.

  Output on stdout (\<open>print\<close>) and logging are not modelled.
\<close>

subsection \<open>Python values\<close>

text \<open>
  The values that reach this module: what callers pass and what \<open>json.loads\<close> returns.
  A dict keeps its keys (strings throughout this module) in insertion order. A float is
  idealised as a real number; floats only pass through the code (the mass of a mass
  search), no arithmetic is done on them.
\<close>

datatype pyval =
    PyNone
  | PyBool bool
  | PyInt int
  | PyFloat real
  | PyStr string
  | PyList "pyval list"
  | PyDict "(string \<times> pyval) list"

text \<open>Truth value testing, as \<open>if x:\<close> does it.\<close>

primrec truthy :: "pyval \<Rightarrow> bool" where
  "truthy PyNone = False"
| "truthy (PyBool b) = b"
| "truthy (PyInt i) = (i \<noteq> 0)"
| "truthy (PyFloat r) = (r \<noteq> 0)"
| "truthy (PyStr s) = (s \<noteq> [])"
| "truthy (PyList xs) = (xs \<noteq> [])"
| "truthy (PyDict kvs) = (kvs \<noteq> [])"

text \<open>A parameter with a default value: \<open>None\<close> is the argument left out of the call.\<close>

definition default_to :: "'a \<Rightarrow> 'a option \<Rightarrow> 'a" where
  "default_to d arg = (case arg of None \<Rightarrow> d | Some v \<Rightarrow> v)"

subsection \<open>Exceptions\<close>

text \<open>
  The classes of \<open>chemspipy.errors\<close> (imported at the top of the module; each carries its
  message) and the built-in exceptions the code can run into.
\<close>

datatype type_error =
    MissingArgument string
  | MultipleValues string
  | TooManyPositional
  | NotIterable
  | JoinItem

datatype error =
    ChemSpiPyError string
  | ChemSpiPyParseError string
  | ChemSpiPyAuthError string
  | ChemSpiPyServerError string
  | ChemSpiPyNotFoundError string
  | TypeError type_error
  | NameError string
  | UnboundLocalError string
  | KeyError string
  | AttributeError string
  | RecursionError string
  | ValueError string

subsection \<open>Module constants\<close>

definition ASCENDING :: string where
  "ASCENDING = ''ascending''"

definition DESCENDING :: string where
  "DESCENDING = ''descending''"

definition CSID :: string where
  "CSID = ''csid''"

subsection \<open>The client object, the HTTP library and the remote service\<close>

text \<open>
  \<open>self.api_url\<close>, \<open>self.apikey\<close> and the headers of the session \<open>self.http\<close>. The
  header dict of a session ignores the case of its keys; the module writes the keys
  \<open>User-Agent\<close>, \<open>Content-Type\<close> and \<open>apikey\<close> only, always in this spelling, and the
  model keeps the keys as they are written.
\<close>

record client =
  api_url :: string
  apikey :: pyval
  headers :: "string \<rightharpoonup> pyval"

text \<open>
  A URL is kept as the pieces the format strings put together: \<open>Url b [s1, s2] q\<close> is the
  text \<open>b/s1/s2\<close>, each piece rendered by \<open>%s\<close>, followed by \<open>?fields=q\<close> when \<open>q\<close> is
  given.
\<close>

datatype url = Url string "pyval list" "string option"

datatype verb = GET | POST

text \<open>
  One call handed to the HTTP library. \<open>via_session\<close> tells \<open>self.http.post\<close> (the shared
  session) from the module-level \<open>requests.get\<close>.
\<close>

record http_call =
  verb :: verb
  url :: url
  json :: "pyval option"
  sent_headers :: "string \<rightharpoonup> pyval"
  via_session :: bool

text \<open>
  What the library gives back: a response with its status code and text, or a
  \<open>requests.RequestException\<close> with its message.
\<close>

datatype outcome = Response int string | RequestException string

text \<open>
  How \<open>json.loads\<close> can fail on a text: with \<open>json.JSONDecodeError\<close> and its message
  when the text is not JSON, or with an exception that is not a \<open>JSONDecodeError\<close>:
  \<open>RecursionError\<close> when arrays or objects are nested deeper than the interpreter's
  recursion limit, \<open>ValueError\<close> when an integer literal has more digits than the limit
  on the conversion of strings to integers.
\<close>

datatype decode_failure = JSONDecodeError string | Uncaught error

text \<open>
  The environment of a run: the remote service, which may answer by the calls it has
  seen, and \<open>json.loads\<close>, which returns the decoded value or fails.
\<close>

record env =
  remote :: "http_call list \<Rightarrow> http_call \<Rightarrow> outcome"
  json_loads :: "string \<Rightarrow> decode_failure + pyval"

type_synonym 'a run = "(error + 'a) \<times> client \<times> http_call list"

subsection \<open>\<open>BaseChemSpider.__init__\<close>\<close>

text \<open>
  \<open>session_headers\<close> are the headers of a fresh \<open>requests.session()\<close>, \<open>package_version\<close>
  is \<open>__version__\<close> and \<open>python_version\<close> is \<open>sys.version.split()[0]\<close>.
\<close>

definition init ::
  "(string \<rightharpoonup> pyval) \<Rightarrow> string \<Rightarrow> string \<Rightarrow>
   pyval option \<Rightarrow> pyval option \<Rightarrow> string option \<Rightarrow> string option \<Rightarrow> string option \<Rightarrow> client" where
  "init session_headers package_version python_version
        apikey_arg user_agent_arg api_base_url_arg api_path_arg version_arg =
     (let apikey = default_to PyNone apikey_arg;
          user_agent = default_to PyNone user_agent_arg;
          api_base_url = default_to ''https://api.rsc.org'' api_base_url_arg;
          api_path = default_to ''compounds'' api_path_arg;
          version = default_to ''v1'' version_arg;
          h1 = session_headers(''User-Agent'' \<mapsto>
                 (if truthy user_agent then user_agent
                  else PyStr (''ChemSpiPy/'' @ package_version @ '' Python/'' @ python_version @ '' '')));
          h2 = h1(''Content-Type'' \<mapsto> PyStr ''application/json'')
      in \<lparr>api_url = api_base_url @ ''/'' @ api_path @ ''/'' @ version,
          apikey = apikey,
          headers = h2\<rparr>)"

subsection \<open>\<open>BaseChemSpider.request\<close>\<close>

text \<open>
  The signature is \<open>request(self, api, endpoint, http_verb, record_id=None, **params)\<close>.
  Binding the arguments of a call comes first, as in Python: positional arguments fill
  the parameters in order, a keyword that names a parameter fills it unless it is filled
  already, every other keyword goes to \<open>params\<close>, and a parameter without a default that
  stays empty is a \<open>TypeError\<close>.
\<close>

record request_args =
  api :: pyval
  endpoint :: pyval
  http_verb :: pyval
  record_id :: pyval
  params :: "(string \<times> pyval) list"

definition request_parameters :: "string list" where
  "request_parameters = [''api'', ''endpoint'', ''http_verb'', ''record_id'']"

primrec bind_keywords ::
  "(string \<times> pyval) list \<Rightarrow> (string \<rightharpoonup> pyval) \<Rightarrow> (string \<times> pyval) list \<Rightarrow>
   error + (string \<rightharpoonup> pyval) \<times> (string \<times> pyval) list" where
  "bind_keywords [] slots extra = Inr (slots, extra)"
| "bind_keywords (kv # kws) slots extra =
     (if fst kv = ''self'' then Inl (TypeError (MultipleValues (fst kv)))
      else if fst kv \<in> set request_parameters then
        (case slots (fst kv) of
           Some _ \<Rightarrow> Inl (TypeError (MultipleValues (fst kv)))
         | None \<Rightarrow> bind_keywords kws (slots(fst kv \<mapsto> snd kv)) extra)
      else bind_keywords kws slots (extra @ [kv]))"

definition bind_request :: "pyval list \<Rightarrow> (string \<times> pyval) list \<Rightarrow> error + request_args" where
  "bind_request args kwargs =
     (case bind_keywords kwargs (map_of (zip request_parameters args)) [] of
        Inl e \<Rightarrow> Inl e
      | Inr (slots, extra) \<Rightarrow>
          if length args > length request_parameters then Inl (TypeError TooManyPositional)
          else (case slots ''api'' of
             None \<Rightarrow> Inl (TypeError (MissingArgument ''api''))
           | Some a \<Rightarrow> (case slots ''endpoint'' of
             None \<Rightarrow> Inl (TypeError (MissingArgument ''endpoint''))
           | Some e \<Rightarrow> (case slots ''http_verb'' of
             None \<Rightarrow> Inl (TypeError (MissingArgument ''http_verb''))
           | Some v \<Rightarrow>
               Inr \<lparr>api = a, endpoint = e, http_verb = v,
                    record_id = default_to PyNone (slots ''record_id''),
                    params = extra\<rparr>))))"

text \<open>
  \<open>','.join(x)\<close>: the items of \<open>x\<close> (the elements of a list, the keys of a dict, the
  characters of a string) joined by commas; a \<open>TypeError\<close> when \<open>x\<close> is not iterable or
  an item is not a string.
\<close>

primrec str_items :: "pyval list \<Rightarrow> error + string list" where
  "str_items [] = Inr []"
| "str_items (x # xs) =
     (case x of
        PyStr s \<Rightarrow> (case str_items xs of Inl e \<Rightarrow> Inl e | Inr ss \<Rightarrow> Inr (s # ss))
      | _ \<Rightarrow> Inl (TypeError JoinItem))"

primrec intersperse :: "string \<Rightarrow> string list \<Rightarrow> string" where
  "intersperse sep [] = []"
| "intersperse sep (s # ss) = (if ss = [] then s else s @ sep @ intersperse sep ss)"

definition comma_join :: "pyval \<Rightarrow> error + string" where
  "comma_join x =
     (case x of
        PyList xs \<Rightarrow> (case str_items xs of Inl e \<Rightarrow> Inl e | Inr ss \<Rightarrow> Inr (intersperse '','' ss))
      | PyDict kvs \<Rightarrow> Inr (intersperse '','' (map fst kvs))
      | PyStr s \<Rightarrow> Inr (intersperse '','' (map (\<lambda>c. [c]) s))
      | _ \<Rightarrow> Inl (TypeError NotIterable))"

text \<open>The first statement of \<open>request\<close>: the URL, with the \<open>fields\<close> query for a record.\<close>

definition build_url :: "client \<Rightarrow> request_args \<Rightarrow> error + url" where
  "build_url self a =
     (if truthy (record_id a) then
        (case map_of (params a) ''fields'' of
           None \<Rightarrow> Inr (Url (api_url self) [api a, record_id a, endpoint a] None)
         | Some fs \<Rightarrow>
             (case comma_join fs of
                Inl e \<Rightarrow> Inl e
              | Inr parameters \<Rightarrow>
                  Inr (Url (api_url self) [api a, record_id a, endpoint a] (Some parameters))))
      else Inr (Url (api_url self) [api a, endpoint a] None))"

text \<open>The chain of tests on \<open>response.status_code\<close>, in the order of the source.\<close>

definition check_status :: "int \<Rightarrow> string \<Rightarrow> error option" where
  "check_status status_code text =
     (if status_code = 200 then None
      else if status_code = 400 then
        Some (ChemSpiPyAuthError ''Bad Request. Check the request you sent and try again.'')
      else if status_code = 401 then
        Some (ChemSpiPyAuthError (''Unauthorized. Check you have supplied the correct API key and that you have sent it as an HTTP Header called '' @ [CHR 0x27] @ ''apikey'' @ [CHR 0x27] @ ''.''))
      else if status_code = 404 then
        Some (ChemSpiPyAuthError ''Not Found. The requested endpoint URL is not recognized. Change your request and try again.'')
      else if status_code = 405 then
        Some (ChemSpiPyAuthError ''Method Not Allowed. The verb is incorrect for the endpoint. Change your request and try again.'')
      else if status_code = 413 then
        Some (ChemSpiPyAuthError ''Payload Too Large. The request you sent was too big to handle. Change your request and try again.'')
      else if status_code = 429 then
        Some (ChemSpiPyAuthError ''Too Many Requests. Send fewer requests, or use rate-limiting to slow them down, then try again.'')
      else if status_code = 500 then
        Some (ChemSpiPyAuthError ''Internal Server Error. Wait and try again.'')
      else if status_code = 503 then
        Some (ChemSpiPyAuthError ''Service Unavailable. Wait and try again.'')
      else Some (ChemSpiPyServerError text))"

text \<open>
  From the response on: the status tests, then decoding the text. The \<open>except\<close> clause
  names \<open>json.JSONDecodeError\<close> only, so any other exception of the decoder leaves
  \<open>request\<close> as it is.
\<close>

definition read_response :: "env \<Rightarrow> int \<Rightarrow> string \<Rightarrow> error + pyval" where
  "read_response env status_code text =
     (case check_status status_code text of
        Some e \<Rightarrow> Inl e
      | None \<Rightarrow>
          (case json_loads env text of
             Inl (JSONDecodeError msg) \<Rightarrow>
               Inl (ChemSpiPyParseError (''Unable to parse json response: '' @ msg))
           | Inl (Uncaught e) \<Rightarrow> Inl e
           | Inr response_dict \<Rightarrow> Inr response_dict))"

definition after_call :: "env \<Rightarrow> client \<Rightarrow> http_call list \<Rightarrow> http_call \<Rightarrow> pyval run" where
  "after_call env self calls call =
     (case remote env calls call of
        RequestException msg \<Rightarrow> (Inl (ChemSpiPyError msg), self, calls @ [call])
      | Response status_code text \<Rightarrow> (read_response env status_code text, self, calls @ [call]))"

text \<open>\<open>self.http.headers.update({'apikey': self.apikey})\<close>\<close>

definition with_apikey_header :: "client \<Rightarrow> client" where
  "with_apikey_header self = self\<lparr>headers := (headers self)(''apikey'' \<mapsto> apikey self)\<rparr>"

text \<open>
  \<open>self.http.post(url, json=params['data'], headers=self.http.headers)\<close>, with the URL
  that the \<open>POST\<close> branch computes anew, and \<open>requests.get(url, headers=self.http.headers)\<close>.
\<close>

definition post_call :: "client \<Rightarrow> request_args \<Rightarrow> pyval \<Rightarrow> http_call" where
  "post_call self a d =
     \<lparr>verb = POST, url = Url (api_url self) [api a, endpoint a] None, json = Some d,
      sent_headers = headers self, via_session = True\<rparr>"

definition get_call :: "client \<Rightarrow> url \<Rightarrow> http_call" where
  "get_call self u =
     \<lparr>verb = GET, url = u, json = None, sent_headers = headers self, via_session = False\<rparr>"

text \<open>
  The body of \<open>request\<close>, once the arguments are bound. \<open>params['apikey'] = self.apikey\<close>
  changes the local dict only. Both branches update the session's headers before they
  call the library, and \<open>params['data']\<close> is read after that update; a verb that is
  neither \<open>'POST'\<close> nor \<open>'GET'\<close> leaves \<open>response\<close> unassigned, and the first test of
  the status reads it.
\<close>

definition request_body :: "env \<Rightarrow> request_args \<Rightarrow> client \<Rightarrow> http_call list \<Rightarrow> pyval run" where
  "request_body env a self calls =
     (case build_url self a of
        Inl e \<Rightarrow> (Inl e, self, calls)
      | Inr u \<Rightarrow>
          (let params = AList.update ''apikey'' (apikey self) (params a) in
           if http_verb a = PyStr ''POST'' then
             (let self' = with_apikey_header self in
              case map_of params ''data'' of
                None \<Rightarrow> (Inl (KeyError ''data''), self', calls)
              | Some d \<Rightarrow> after_call env self' calls (post_call self' a d))
           else if http_verb a = PyStr ''GET'' then
             (let self' = with_apikey_header self in
              after_call env self' calls (get_call self' u))
           else (Inl (UnboundLocalError ''response''), self, calls)))"

definition request ::
  "env \<Rightarrow> pyval list \<Rightarrow> (string \<times> pyval) list \<Rightarrow> client \<Rightarrow> http_call list \<Rightarrow> pyval run" where
  "request env args kwargs self calls =
     (case bind_request args kwargs of
        Inl e \<Rightarrow> (Inl e, self, calls)
      | Inr a \<Rightarrow> request_body env a self calls)"

subsection \<open>Compounds and result lists\<close>

text \<open>
  \<open>Compound(self, csid)\<close> of \<open>chemspipy.objects\<close>: a handle on a record, made from its
  identifier without a remote call. The reference to the client is left out, since the
  client is passed around explicitly.
\<close>

datatype compound = Compound pyval

text \<open>
  \<open>[Compound(self, el.text) for el in response]\<close>, where \<open>response\<close> is what \<open>request\<close>
  returned, a decoded JSON value. Iterating a list gives its elements, a dict its keys,
  a string its characters; the other values are not iterable. None of the types of a
  decoded value (\<open>NoneType\<close>, \<open>bool\<close>, \<open>int\<close>, \<open>float\<close>, \<open>str\<close>, \<open>list\<close>, \<open>dict\<close>) has an
  attribute \<open>text\<close>, so the first element, if there is one, raises \<open>AttributeError\<close>.
\<close>

definition py_iter :: "pyval \<Rightarrow> error + pyval list" where
  "py_iter x =
     (case x of
        PyList xs \<Rightarrow> Inr xs
      | PyDict kvs \<Rightarrow> Inr (map (\<lambda>kv. PyStr (fst kv)) kvs)
      | PyStr s \<Rightarrow> Inr (map (\<lambda>c. PyStr [c]) s)
      | _ \<Rightarrow> Inl (TypeError NotIterable))"

definition text_attribute :: "pyval \<Rightarrow> error + pyval" where
  "text_attribute el = Inl (AttributeError ''text'')"

primrec compounds_from :: "pyval list \<Rightarrow> error + compound list" where
  "compounds_from [] = Inr []"
| "compounds_from (el # els) =
     (case text_attribute el of
        Inl e \<Rightarrow> Inl e
      | Inr t \<Rightarrow> (case compounds_from els of Inl e \<Rightarrow> Inl e | Inr cs \<Rightarrow> Inr (Compound t # cs)))"

definition compound_list :: "pyval \<Rightarrow> error + compound list" where
  "compound_list response =
     (case py_iter response of Inl e \<Rightarrow> Inl e | Inr els \<Rightarrow> compounds_from els)"

definition then_compound_list :: "pyval run \<Rightarrow> compound list run" where
  "then_compound_list r =
     (case r of
        (Inl e, self, calls) \<Rightarrow> (Inl e, self, calls)
      | (Inr response, self, calls) \<Rightarrow> (compound_list response, self, calls))"

subsection \<open>\<open>MassSpecApi\<close>: the formula and mass searches\<close>

text \<open>
  Both functions build \<open>payload\<close> and then, for a true \<open>datasources\<close>, assign into
  \<open>data\<close>, a name bound nowhere in the function, the module or the built-ins.
\<close>

definition simple_search_by_formula ::
  "env \<Rightarrow> pyval \<Rightarrow> pyval option \<Rightarrow> client \<Rightarrow> http_call list \<Rightarrow> compound list run" where
  "simple_search_by_formula env formula datasources_arg self calls =
     (let datasources = default_to PyNone datasources_arg;
          payload = PyDict [(''formula'', formula)]
      in if truthy datasources then (Inl (NameError ''data''), self, calls)
         else then_compound_list
                (request env [PyStr ''filter'', PyStr ''formula'', PyStr ''POST'']
                   [(''data'', payload)] self calls))"

definition simple_search_by_mass ::
  "env \<Rightarrow> pyval \<Rightarrow> pyval \<Rightarrow> pyval option \<Rightarrow> client \<Rightarrow> http_call list \<Rightarrow> compound list run" where
  "simple_search_by_mass env mass mass_range datasources_arg self calls =
     (let datasources = default_to PyNone datasources_arg;
          payload = PyDict [(''mass'', mass), (''range'', mass_range)]
      in if truthy datasources then (Inl (NameError ''data''), self, calls)
         else then_compound_list
                (request env [PyStr ''filter'', PyStr ''mass'', PyStr ''POST'']
                   [(''data'', payload)] self calls))"

subsection \<open>\<open>SearchApi\<close>\<close>

definition async_simple_search :: "env \<Rightarrow> pyval \<Rightarrow> client \<Rightarrow> http_call list \<Rightarrow> pyval run" where
  "async_simple_search env query self calls =
     (let payload = PyDict [(''name'', query)]
      in request env [PyStr ''filter'', PyStr ''name'', PyStr ''POST''] [(''data'', payload)]
           self calls)"

definition async_simple_search_ordered ::
  "env \<Rightarrow> pyval \<Rightarrow> pyval option \<Rightarrow> pyval option \<Rightarrow> client \<Rightarrow> http_call list \<Rightarrow> pyval run" where
  "async_simple_search_ordered env query order_arg direction_arg self calls =
     (let order = default_to (PyStr CSID) order_arg;
          direction = default_to (PyStr ASCENDING) direction_arg;
          payload = PyDict [(''name'', query), (''orderBy'', order), (''orderDirection'', direction)]
      in request env [PyStr ''filter'', PyStr ''name'', PyStr ''POST''] [(''data'', payload)]
           self calls)"




text \<open>
  The two functions that fetch results call \<open>request\<close> with two positional arguments and
  keywords only: nothing is passed for \<open>http_verb\<close>.
\<close>

definition get_async_search_result ::
  "env \<Rightarrow> pyval \<Rightarrow> client \<Rightarrow> http_call list \<Rightarrow> compound list run" where
  "get_async_search_result env rid self calls =
     then_compound_list
       (request env [PyStr ''Search'', PyStr ''GetAsyncSearchResult''] [(''rid'', rid)] self calls)"

definition get_async_search_result_part ::
  "env \<Rightarrow> pyval \<Rightarrow> pyval option \<Rightarrow> pyval option \<Rightarrow> client \<Rightarrow> http_call list \<Rightarrow>
   compound list run" where
  "get_async_search_result_part env rid start_arg count_arg self calls =
     (let start = default_to (PyInt 0) start_arg;
          count = default_to (PyInt (- 1)) count_arg
      in then_compound_list
           (request env [PyStr ''Search'', PyStr ''GetAsyncSearchResultPart'']
              [(''rid'', rid), (''start'', start), (''count'', count)] self calls))"

subsection \<open>\<open>CustomApi\<close>: the facade\<close>

text \<open>
  \<open>search\<close> returns \<open>Results(self, f, args, raise_errors=raise_errors)\<close>. The class
  \<open>Results\<close> lives in \<open>chemspipy.search\<close>; here a session is the arguments it was
  constructed with: the client, which of the two submission methods it was given, the
  tuple of arguments for that method, and the flag.
\<close>

datatype search_func = Async_simple_search | Async_simple_search_ordered

record results =
  cs :: client
  search_func :: search_func
  search_args :: "pyval list"
  raise_errors :: pyval

definition get_compound :: "client \<Rightarrow> pyval \<Rightarrow> compound" where
  "get_compound self csid = Compound csid"

definition get_compounds :: "client \<Rightarrow> pyval list \<Rightarrow> compound list" where
  "get_compounds self csids = map Compound csids"

definition search ::
  "client \<Rightarrow> pyval \<Rightarrow> pyval option \<Rightarrow> pyval option \<Rightarrow> pyval option \<Rightarrow> results" where
  "search self query order_arg direction_arg raise_errors_arg =
     (let order = default_to PyNone order_arg;
          direction = default_to (PyStr ASCENDING) direction_arg;
          raise_errors = default_to (PyBool False) raise_errors_arg
      in if truthy order \<and> truthy direction then
           \<lparr>cs = self, search_func = Async_simple_search_ordered,
            search_args = [query, order, direction], raise_errors = raise_errors\<rparr>
         else
           \<lparr>cs = self, search_func = Async_simple_search,
            search_args = [query], raise_errors = raise_errors\<rparr>)"

subsection \<open>Environments and a client for the examples\<close>

text \<open>
  A remote service that gives the same answer to every call, a decoder that gives the same
  result for every text (each example pairs it with a text on which \<open>json.loads\<close> has
  this result), a client constructed with an API key and the defaults, and a text of
  100000 opening brackets, nested far deeper than the recursion limit.
\<close>

definition answer :: "outcome \<Rightarrow> http_call list \<Rightarrow> http_call \<Rightarrow> outcome" where
  "answer out calls call = out"

definition decode_as :: "decode_failure + pyval \<Rightarrow> string \<Rightarrow> decode_failure + pyval" where
  "decode_as r text = r"

definition deep_body :: string where
  "deep_body = replicate 100000 (CHR ''['')"

definition example_client :: client where
  "example_client =
     init Map.empty ''2.0.0'' ''3.11.4'' (Some (PyStr ''my-key'')) None None None None"

section \<open>Facts about \<open>request\<close>\<close>

subsection \<open>Binding the arguments\<close>

lemma bind_positional:
  "bind_request [a, e, v] [] =
     Inr \<lparr>api = a, endpoint = e, http_verb = v, record_id = PyNone, params = []\<rparr>"
  by (simp add: bind_request_def request_parameters_def default_to_def)

lemma bind_record_id:
  "bind_request [a, e, v] [(''record_id'', rid)] =
     Inr \<lparr>api = a, endpoint = e, http_verb = v, record_id = rid, params = []\<rparr>"
  by (simp add: bind_request_def request_parameters_def default_to_def)

lemma bind_data:
  "bind_request [a, e, v] [(''data'', d)] =
     Inr \<lparr>api = a, endpoint = e, http_verb = v, record_id = PyNone, params = [(''data'', d)]\<rparr>"
  by (simp add: bind_request_def request_parameters_def default_to_def)

lemma bind_record_id_fields:
  "bind_request [a, e, v] [(''record_id'', rid), (''fields'', fs)] =
     Inr \<lparr>api = a, endpoint = e, http_verb = v, record_id = rid,
          params = [(''fields'', fs)]\<rparr>"
  by (simp add: bind_request_def request_parameters_def default_to_def)

lemma bind_rid:
  "bind_request [a, e] [(''rid'', rid)] = Inl (TypeError (MissingArgument ''http_verb''))"
  by (simp add: bind_request_def request_parameters_def default_to_def)

lemma bind_rid_start_count:
  "bind_request [a, e] [(''rid'', rid), (''start'', s), (''count'', c)] =
     Inl (TypeError (MissingArgument ''http_verb''))"
  by (simp add: bind_request_def request_parameters_def default_to_def)

subsection \<open>The call that is sent\<close>

text \<open>
  A call whose arguments bind, whose URL can be built and whose verb is \<open>'GET'\<close>, or
  \<open>'POST'\<close> with a \<open>data\<close> keyword, updates the headers, hands one call to the library and
  goes on with its outcome.
\<close>

lemma request_sends:
  assumes "bind_request args kwargs = Inr a"
    and "build_url self a = Inr u"
    and "http_verb a = PyStr ''GET'' \<and> call = get_call (with_apikey_header self) u \<or>
         http_verb a = PyStr ''POST'' \<and> map_of (params a) ''data'' = Some d \<and>
           call = post_call (with_apikey_header self) a d"
  shows "request env args kwargs self calls = after_call env (with_apikey_header self) calls call"
  using assms by (auto simp: request_def request_body_def Let_def update_conv')

lemma request_get_positional:
  "request env [a, e, PyStr ''GET''] [] self calls =
     after_call env (with_apikey_header self) calls
       (get_call (with_apikey_header self) (Url (api_url self) [a, e] None))"
  by (rule request_sends [where d = PyNone, OF bind_positional])
     (simp_all add: build_url_def)

lemma request_post_data:
  "request env [a, e, PyStr ''POST''] [(''data'', d)] self calls =
     after_call env (with_apikey_header self) calls
       (post_call (with_apikey_header self)
          \<lparr>api = a, endpoint = e, http_verb = PyStr ''POST'', record_id = PyNone,
           params = [(''data'', d)]\<rparr> d)"
  by (rule request_sends [where u = "Url (api_url self) [a, e] None", OF bind_data])
     (simp_all add: build_url_def)

lemma request_get_record:
  "request env [a, e, PyStr ''GET''] [(''record_id'', rid)] self calls =
     after_call env (with_apikey_header self) calls
       (get_call (with_apikey_header self)
          (if truthy rid then Url (api_url self) [a, rid, e] None
           else Url (api_url self) [a, e] None))"
  by (rule request_sends [where d = PyNone, OF bind_record_id])
     (simp_all add: build_url_def)

lemma after_call_calls: "snd (snd (after_call env self calls call)) = calls @ [call]"
  by (simp add: after_call_def split: outcome.split)

lemma after_call_client: "fst (snd (after_call env self calls call)) = self"
  by (simp add: after_call_def split: outcome.split)

lemma after_call_response:
  "remote env calls call = Response sc text \<Longrightarrow>
   after_call env self calls call = (read_response env sc text, self, calls @ [call])"
  by (simp add: after_call_def)

lemma request_post_data_calls:
  "snd (snd (request env [a, e, PyStr ''POST''] [(''data'', d)] self calls)) =
     calls @ [\<lparr>verb = POST, url = Url (api_url self) [a, e] None, json = Some d,
               sent_headers = (headers self)(''apikey'' \<mapsto> apikey self),
               via_session = True\<rparr>]"
  by (simp add: request_post_data after_call_calls post_call_def with_apikey_header_def)

text \<open>The client after the body of \<open>request\<close>: as it was, or with the header set.\<close>

lemma request_body_client:
  "fst (snd (request_body env a self calls)) = self \<or>
   fst (snd (request_body env a self calls)) = with_apikey_header self"
  by (simp add: request_body_def Let_def after_call_client split: sum.split option.split)

text \<open>
  A verb other than \<open>'GET'\<close> and \<open>'POST'\<close>: nothing is sent and the client stays as it
  is, whether the URL could be built or not.
\<close>

lemma request_other_verb_no_call:
  assumes "bind_request args kwargs = Inr a"
    and "http_verb a \<noteq> PyStr ''GET''" and "http_verb a \<noteq> PyStr ''POST''"
  shows "request env args kwargs self calls =
           (Inl (case build_url self a of Inl e \<Rightarrow> e | Inr u \<Rightarrow> UnboundLocalError ''response''),
            self, calls)"
  using assms by (simp add: request_def request_body_def split: sum.split)

text \<open>
  The URL can always be built when no \<open>fields\<close> keyword is given, or when it is a list
  of strings, as the docstring of \<open>get_extended_compound_info\<close> has it.
\<close>

lemma build_url_fields_ok:
  "map_of (params a) ''fields'' = None \<or>
   map_of (params a) ''fields'' = Some (PyList (map PyStr fs)) \<Longrightarrow>
   \<exists>u. build_url self a = Inr u"
proof -
  have "\<exists>ss. str_items (map PyStr fs) = Inr ss"
    by (induction fs) auto
  moreover assume "map_of (params a) ''fields'' = None \<or>
   map_of (params a) ''fields'' = Some (PyList (map PyStr fs))"
  ultimately show ?thesis
    by (auto simp: build_url_def comma_join_def)
qed

text \<open>When the URL cannot be built, it is the join of the fields that failed.\<close>

lemma str_items_error: "str_items xs = Inl e \<Longrightarrow> e = TypeError JoinItem"
  by (induction xs arbitrary: e) (auto split: pyval.splits sum.splits)

lemma build_url_error:
  assumes "build_url self a = Inl e"
  shows "(e = TypeError NotIterable \<or> e = TypeError JoinItem) \<and> truthy (record_id a) \<and>
         (\<exists>fs. map_of (params a) ''fields'' = Some fs \<and> comma_join fs = Inl e)"
  using assms
  by (auto simp: build_url_def comma_join_def split: if_splits option.splits sum.splits
      pyval.splits dest: str_items_error)

subsection \<open>Result lists\<close>

lemma then_compound_list_calls: "snd (snd (then_compound_list r)) = snd (snd r)"
  by (simp add: then_compound_list_def split: prod.split sum.split)

lemma then_compound_list_client: "fst (snd (then_compound_list r)) = fst (snd r)"
  by (simp add: then_compound_list_def split: prod.split sum.split)

section \<open>The claims\<close>

subsection \<open>Fetching a part of the results\<close>

lemma get_async_search_result_raises:
  "get_async_search_result env rid self calls =
     (Inl (TypeError (MissingArgument ''http_verb'')), self, calls)"
  by (simp add: get_async_search_result_def request_def bind_rid then_compound_list_def)

text \<open>
  C1. The claim: for a ready search with 5 results, \<open>get_async_search_result_part\<close> with
  \<open>start=2\<close> and \<open>count=2\<close> returns the handles of positions 2 and 3 of the service's list, in
  order, and \<open>count=-1\<close> returns everything to the end. The code does not get that far:
  for every transaction id, every \<open>start\<close> and \<open>count\<close> (given or defaulted), every client
  and every remote service, the call of \<open>request\<close> inside passes no \<open>http_verb\<close>, so the
  function raises \<open>TypeError\<close> before any call is handed to the HTTP library, and returns no
  handle at all.
\<close>

theorem get_async_search_result_part_raises:
  "get_async_search_result_part env rid start_arg count_arg self calls =
     (Inl (TypeError (MissingArgument ''http_verb'')), self, calls)"
  by (simp add: get_async_search_result_part_def request_def bind_rid_start_count
      then_compound_list_def)

subsection \<open>Status codes 500 and 503\<close>

text \<open>
  C2. The claim: a response with status 500 or 503 raises \<open>ChemSpiPyServerError\<close>, a kind
  apart from the one for 4xx rejections. The code: for a service that answers 500 or 503,
  a \<open>GET\<close> and a \<open>POST\<close> alike raise \<open>ChemSpiPyAuthError\<close>, with the messages
  "Internal Server Error" and "Service Unavailable".
\<close>

theorem request_500_503_AuthError:
  "fst (request \<lparr>remote = answer (Response 500 text), json_loads = loads\<rparr>
          [a, e, PyStr ''GET''] [] self calls)
     = Inl (ChemSpiPyAuthError ''Internal Server Error. Wait and try again.'') \<and>
   fst (request \<lparr>remote = answer (Response 503 text), json_loads = loads\<rparr>
          [a, e, PyStr ''GET''] [] self calls)
     = Inl (ChemSpiPyAuthError ''Service Unavailable. Wait and try again.'') \<and>
   fst (request \<lparr>remote = answer (Response 500 text), json_loads = loads\<rparr>
          [a, e, PyStr ''POST''] [(''data'', d)] self calls)
     = Inl (ChemSpiPyAuthError ''Internal Server Error. Wait and try again.'') \<and>
   fst (request \<lparr>remote = answer (Response 503 text), json_loads = loads\<rparr>
          [a, e, PyStr ''POST''] [(''data'', d)] self calls)
     = Inl (ChemSpiPyAuthError ''Service Unavailable. Wait and try again.'')"
  by (simp add: request_get_positional request_post_data after_call_def answer_def
      read_response_def check_status_def)

subsection \<open>The default of \<open>raise_errors\<close>\<close>

text \<open>
  C3, as stated: \<open>search\<close> constructs the session with \<open>raise_errors=True\<close> unless the caller
  says otherwise. It fails: a search for "benzene" with every optional argument left out
  constructs the session with \<open>raise_errors=False\<close>.
\<close>

theorem search_default_raise_errors_counterexample:
  "raise_errors (search example_client (PyStr ''benzene'') None None None) = PyBool False"
  by (simp add: search_def default_to_def)

text \<open>
  C3, amended: \<open>search\<close> constructs the session with \<open>raise_errors=False\<close> when the argument
  is left out, and with the caller's value when it is given, whatever the query, the order
  and the direction.
\<close>

theorem search_passes_raise_errors:
  "raise_errors (search self query order_arg direction_arg None) = PyBool False \<and>
   raise_errors (search self query order_arg direction_arg (Some r)) = r"
  by (simp add: search_def default_to_def Let_def)

subsection \<open>Checking the status of a search\<close>



subsection \<open>What \<open>request\<close> changes in the client\<close>

text \<open>
  C5, as stated: the headers of the shared session are the same after every call of
  \<open>request\<close> as before it. It fails for the first call on a new client: the
  constructor sets no \<open>apikey\<close> header, and after one \<open>GET\<close> the session has one.
\<close>

theorem request_sets_apikey_header_counterexample:
  "headers example_client ''apikey'' = None \<and>
   headers (fst (snd (request
      \<lparr>remote = answer (Response 200 ''{}''), json_loads = decode_as (Inr (PyDict []))\<rparr>
      [PyStr ''lookups'', PyStr ''datasources'', PyStr ''GET''] [] example_client [])))
     ''apikey'' = Some (PyStr ''my-key'')"
  by (simp add: request_get_positional after_call_client with_apikey_header_def
      example_client_def init_def default_to_def)

text \<open>
  C5, amended: no call of \<open>request\<close> changes the base URL or the API key of the client,
  and the only change it makes to the headers of the shared session is to set the header
  \<open>apikey\<close> to the client's API key.
\<close>

theorem request_client_frame:
  "api_url (fst (snd (request env args kwargs self calls))) = api_url self \<and>
   apikey (fst (snd (request env args kwargs self calls))) = apikey self \<and>
   (headers (fst (snd (request env args kwargs self calls))) = headers self \<or>
    headers (fst (snd (request env args kwargs self calls))) =
      (headers self)(''apikey'' \<mapsto> apikey self))"
proof (cases "bind_request args kwargs")
  case (Inl e)
  then show ?thesis by (simp add: request_def)
next
  case (Inr a)
  then have "request env args kwargs self calls = request_body env a self calls"
    by (simp add: request_def)
  with request_body_client [of env a self calls] show ?thesis
    by (auto simp: with_apikey_header_def)
qed

subsection \<open>Status codes of the 4xx class\<close>

text \<open>
  C6, as stated: every status from 400 to 499 raises \<open>ChemSpiPyAuthError\<close>. It fails at
  403, which none of the tests of the status names: the final \<open>else\<close> raises
  \<open>ChemSpiPyServerError\<close> with the text of the response.
\<close>

theorem request_403_counterexample:
  "fst (request \<lparr>remote = answer (Response 403 ''Forbidden''), json_loads = decode_as (Inr PyNone)\<rparr>
          [PyStr ''filter'', PyStr ''name'', PyStr ''GET''] [] example_client [])
     = Inl (ChemSpiPyServerError ''Forbidden'')"
  by (simp add: request_get_positional after_call_def answer_def read_response_def
      check_status_def)

text \<open>
  C6, amended: when the response to a call of \<open>request\<close> has one of the statuses 400,
  401, 404, 405, 413 and 429, the call raises \<open>ChemSpiPyAuthError\<close>; for 401 the message
  starts with "Unauthorized" and asks to check the API key; every other status from 400
  to 499 raises \<open>ChemSpiPyServerError\<close> with the text of the response.
\<close>

theorem request_recognised_4xx:
  assumes "bind_request args kwargs = Inr a"
    and "build_url self a = Inr u"
    and "http_verb a = PyStr ''GET'' \<and> call = get_call (with_apikey_header self) u \<or>
         http_verb a = PyStr ''POST'' \<and> map_of (params a) ''data'' = Some d \<and>
           call = post_call (with_apikey_header self) a d"
    and "remote env calls call = Response sc text"
  shows "(sc \<in> {400, 401, 404, 405, 413, 429} \<longrightarrow>
            (\<exists>msg. fst (request env args kwargs self calls) = Inl (ChemSpiPyAuthError msg))) \<and>
         (sc = 401 \<longrightarrow>
            fst (request env args kwargs self calls) =
              Inl (ChemSpiPyAuthError (''Unauthorized. Check you have supplied the correct API key and that you have sent it as an HTTP Header called '' @ [CHR 0x27] @ ''apikey'' @ [CHR 0x27] @ ''.''))) \<and>
         (400 \<le> sc \<and> sc \<le> 499 \<and> sc \<notin> {400, 401, 404, 405, 413, 429} \<longrightarrow>
            fst (request env args kwargs self calls) = Inl (ChemSpiPyServerError text))"
proof -
  have eq: "fst (request env args kwargs self calls) = read_response env sc text"
    by (simp add: request_sends [OF assms(1-3)] after_call_response [OF assms(4)])
  show ?thesis
    unfolding eq by (simp add: read_response_def check_status_def)
qed

text \<open>C6, amended, at a 401 and at a 418 answer to a \<open>POST\<close>.\<close>

theorem request_recognised_4xx_witness:
  "fst (request \<lparr>remote = answer (Response 401 ''Unauthorized''), json_loads = decode_as (Inr PyNone)\<rparr>
          [PyStr ''filter'', PyStr ''name'', PyStr ''POST''] [(''data'', PyDict [(''name'', PyStr ''benzene'')])]
          example_client [])
     = Inl (ChemSpiPyAuthError (''Unauthorized. Check you have supplied the correct API key and that you have sent it as an HTTP Header called '' @ [CHR 0x27] @ ''apikey'' @ [CHR 0x27] @ ''.'')) \<and>
   fst (request \<lparr>remote = answer (Response 418 ''teapot''), json_loads = decode_as (Inr PyNone)\<rparr>
          [PyStr ''filter'', PyStr ''name'', PyStr ''POST''] [(''data'', PyDict [(''name'', PyStr ''benzene'')])]
          example_client [])
     = Inl (ChemSpiPyServerError ''teapot'')"
proof -
  let ?d = "PyDict [(''name'', PyStr ''benzene'')]"
  let ?a = "\<lparr>api = PyStr ''filter'', endpoint = PyStr ''name'', http_verb = PyStr ''POST'',
             record_id = PyNone, params = [(''data'', ?d)]\<rparr>"
  let ?u = "Url (api_url example_client) [PyStr ''filter'', PyStr ''name''] None"
  let ?call = "post_call (with_apikey_header example_client) ?a ?d"
  have url: "build_url example_client ?a = Inr ?u"
    by (simp add: build_url_def)
  have verb: "http_verb ?a = PyStr ''GET'' \<and> ?call = get_call (with_apikey_header example_client) ?u \<or>
         http_verb ?a = PyStr ''POST'' \<and> map_of (params ?a) ''data'' = Some ?d \<and>
           ?call = post_call (with_apikey_header example_client) ?a ?d"
    by simp
  have r401: "remote \<lparr>remote = answer (Response 401 ''Unauthorized''), json_loads = decode_as (Inr PyNone)\<rparr> [] ?call
      = Response 401 ''Unauthorized''"
    by (simp add: answer_def)
  have r418: "remote \<lparr>remote = answer (Response 418 ''teapot''), json_loads = decode_as (Inr PyNone)\<rparr> [] ?call
      = Response 418 ''teapot''"
    by (simp add: answer_def)
  from request_recognised_4xx [OF bind_data url verb r401]
       request_recognised_4xx [OF bind_data url verb r418]
  show ?thesis by simp
qed

subsection \<open>A body that is not JSON\<close>

text \<open>
  C7, as stated: when the body of a response with status 200 cannot be decoded,
  \<open>request\<close> raises \<open>ChemSpiPyParseError\<close> and no error of another kind. It fails for a body
  of 100000 opening brackets: \<open>json.loads\<close> raises \<open>RecursionError\<close> on it, which is not a
  \<open>JSONDecodeError\<close>, and \<open>request\<close> raises that \<open>RecursionError\<close>.
\<close>

theorem request_deep_body_counterexample:
  "fst (request
     \<lparr>remote = answer (Response 200 deep_body),
      json_loads = decode_as (Inl (Uncaught (RecursionError
        ''maximum recursion depth exceeded while decoding a JSON array from a unicode string'')))\<rparr>
     [PyStr ''filter'', PyStr ''status'', PyStr ''GET''] [(''record_id'', PyStr ''abc-123'')]
     example_client [])
   = Inl (RecursionError
       ''maximum recursion depth exceeded while decoding a JSON array from a unicode string'')"
  by (simp add: request_get_record after_call_def answer_def read_response_def
      check_status_def decode_as_def)

text \<open>
  C7, amended: when the response to a call of \<open>request\<close> has status 200 and \<open>json.loads\<close>
  raises \<open>JSONDecodeError\<close> on its text, the call raises \<open>ChemSpiPyParseError\<close>, with the
  decoder's message after "Unable to parse json response: "; it returns no value and
  raises nothing else. When \<open>json.loads\<close> fails with an exception that is not a
  \<open>JSONDecodeError\<close>, the call raises that exception as it is. Either way the one call
  has been made and the \<open>apikey\<close> header set.
\<close>

theorem request_undecodable_body:
  assumes "bind_request args kwargs = Inr a"
    and "build_url self a = Inr u"
    and "http_verb a = PyStr ''GET'' \<and> call = get_call (with_apikey_header self) u \<or>
         http_verb a = PyStr ''POST'' \<and> map_of (params a) ''data'' = Some d \<and>
           call = post_call (with_apikey_header self) a d"
    and "remote env calls call = Response 200 text"
  shows "(\<forall>msg. json_loads env text = Inl (JSONDecodeError msg) \<longrightarrow>
            request env args kwargs self calls =
              (Inl (ChemSpiPyParseError (''Unable to parse json response: '' @ msg)),
               with_apikey_header self, calls @ [call])) \<and>
         (\<forall>e. json_loads env text = Inl (Uncaught e) \<longrightarrow>
            request env args kwargs self calls =
              (Inl e, with_apikey_header self, calls @ [call]))"
  by (simp add: request_sends [OF assms(1-3)] after_call_response [OF assms(4)]
      read_response_def check_status_def)

text \<open>
  C7, amended, at an HTML page and at the 100000 brackets, each sent with status 200 in
  answer to a status check.
\<close>

theorem request_undecodable_body_witness:
  "fst (request
     \<lparr>remote = answer (Response 200 ''<html>oops</html>''),
      json_loads = decode_as (Inl (JSONDecodeError ''Expecting value: line 1 column 1 (char 0)''))\<rparr>
     [PyStr ''filter'', PyStr ''status'', PyStr ''GET''] [(''record_id'', PyStr ''abc-123'')]
     example_client [])
   = Inl (ChemSpiPyParseError
       ''Unable to parse json response: Expecting value: line 1 column 1 (char 0)'') \<and>
   fst (request
     \<lparr>remote = answer (Response 200 deep_body),
      json_loads = decode_as (Inl (Uncaught (RecursionError
        ''maximum recursion depth exceeded while decoding a JSON array from a unicode string'')))\<rparr>
     [PyStr ''filter'', PyStr ''status'', PyStr ''GET''] [(''record_id'', PyStr ''abc-123'')]
     example_client [])
   = Inl (RecursionError
       ''maximum recursion depth exceeded while decoding a JSON array from a unicode string'')"
proof -
  let ?env1 = "\<lparr>remote = answer (Response 200 ''<html>oops</html>''),
      json_loads = decode_as (Inl (JSONDecodeError ''Expecting value: line 1 column 1 (char 0)''))\<rparr>"
  let ?env2 = "\<lparr>remote = answer (Response 200 deep_body),
      json_loads = decode_as (Inl (Uncaught (RecursionError
        ''maximum recursion depth exceeded while decoding a JSON array from a unicode string'')))\<rparr>"
  let ?a = "\<lparr>api = PyStr ''filter'', endpoint = PyStr ''status'', http_verb = PyStr ''GET'',
             record_id = PyStr ''abc-123'', params = []\<rparr>"
  let ?u = "Url (api_url example_client) [PyStr ''filter'', PyStr ''abc-123'', PyStr ''status''] None"
  let ?call = "get_call (with_apikey_header example_client) ?u"
  have url: "build_url example_client ?a = Inr ?u"
    by (simp add: build_url_def)
  have verb: "http_verb ?a = PyStr ''GET'' \<and> ?call = get_call (with_apikey_header example_client) ?u \<or>
         http_verb ?a = PyStr ''POST'' \<and> map_of (params ?a) ''data'' = Some PyNone \<and>
           ?call = post_call (with_apikey_header example_client) ?a PyNone"
    by simp
  have r1: "remote ?env1 [] ?call = Response 200 ''<html>oops</html>''"
    by (simp add: answer_def)
  have r2: "remote ?env2 [] ?call = Response 200 deep_body"
    by (simp add: answer_def)
  have l1: "json_loads ?env1 ''<html>oops</html>'' =
      Inl (JSONDecodeError ''Expecting value: line 1 column 1 (char 0)'')"
    by (simp add: decode_as_def)
  have l2: "json_loads ?env2 deep_body = Inl (Uncaught (RecursionError
        ''maximum recursion depth exceeded while decoding a JSON array from a unicode string''))"
    by (simp add: decode_as_def)
  from request_undecodable_body [OF bind_record_id url verb r1] l1
  have "request ?env1 [PyStr ''filter'', PyStr ''status'', PyStr ''GET'']
          [(''record_id'', PyStr ''abc-123'')] example_client [] =
        (Inl (ChemSpiPyParseError (''Unable to parse json response: '' @
              ''Expecting value: line 1 column 1 (char 0)'')),
         with_apikey_header example_client, [] @ [?call])"
    by blast
  moreover from request_undecodable_body [OF bind_record_id url verb r2] l2
  have "request ?env2 [PyStr ''filter'', PyStr ''status'', PyStr ''GET'']
          [(''record_id'', PyStr ''abc-123'')] example_client [] =
        (Inl (RecursionError
           ''maximum recursion depth exceeded while decoding a JSON array from a unicode string''),
         with_apikey_header example_client, [] @ [?call])"
    by blast
  ultimately show ?thesis by simp
qed

subsection \<open>Which submission \<open>search\<close> chooses\<close>

text \<open>
  C8, as stated: with an order given, \<open>search\<close> submits by the ordered variant. It fails
  when the direction passed is false (\<open>None\<close> here): the session gets the plain
  variant and the query alone, and the order is dropped.
\<close>

theorem search_falsy_direction_counterexample:
  "search_func (search example_client (PyStr ''benzene'') (Some (PyStr ''csid'')) (Some PyNone) None)
     = Async_simple_search \<and>
   search_args (search example_client (PyStr ''benzene'') (Some (PyStr ''csid'')) (Some PyNone) None)
     = [PyStr ''benzene'']"
  by (simp add: search_def default_to_def)

text \<open>
  C8, amended: for every query, \<open>search\<close> returns a new session. When the order and the
  direction are both true values (the direction is \<open>'ascending'\<close> when left out) the
  session is given the ordered submission with the query, the order and the direction,
  and in every other case (a false order, with or without a direction, a false
  direction, or no order at all) the plain submission with the query alone. The ordered submission posts a body with \<open>name\<close>, \<open>orderBy\<close> and
  \<open>orderDirection\<close>, the plain one a body with \<open>name\<close> only.
\<close>

theorem search_chooses_submission:
  "(truthy order \<and> truthy direction \<longrightarrow>
      search self query (Some order) (Some direction) re =
        \<lparr>cs = self, search_func = Async_simple_search_ordered,
         search_args = [query, order, direction],
         raise_errors = default_to (PyBool False) re\<rparr>) \<and>
   (truthy order \<longrightarrow>
      search self query (Some order) None re =
        \<lparr>cs = self, search_func = Async_simple_search_ordered,
         search_args = [query, order, PyStr ''ascending''],
         raise_errors = default_to (PyBool False) re\<rparr>) \<and>
   (\<not> (truthy order \<and> truthy direction) \<longrightarrow>
      search self query (Some order) (Some direction) re =
        \<lparr>cs = self, search_func = Async_simple_search, search_args = [query],
         raise_errors = default_to (PyBool False) re\<rparr>) \<and>
   (\<not> truthy order \<longrightarrow>
      search self query (Some order) None re =
        \<lparr>cs = self, search_func = Async_simple_search, search_args = [query],
         raise_errors = default_to (PyBool False) re\<rparr>) \<and>
   search self query None direction_arg re =
     \<lparr>cs = self, search_func = Async_simple_search, search_args = [query],
      raise_errors = default_to (PyBool False) re\<rparr> \<and>
   snd (snd (async_simple_search_ordered env query (Some order) (Some direction) self calls)) =
     calls @ [\<lparr>verb = POST, url = Url (api_url self) [PyStr ''filter'', PyStr ''name''] None,
               json = Some (PyDict [(''name'', query), (''orderBy'', order),
                                    (''orderDirection'', direction)]),
               sent_headers = (headers self)(''apikey'' \<mapsto> apikey self),
               via_session = True\<rparr>] \<and>
   snd (snd (async_simple_search env query self calls)) =
     calls @ [\<lparr>verb = POST, url = Url (api_url self) [PyStr ''filter'', PyStr ''name''] None,
               json = Some (PyDict [(''name'', query)]),
               sent_headers = (headers self)(''apikey'' \<mapsto> apikey self),
               via_session = True\<rparr>]"
  by (auto simp: search_def default_to_def ASCENDING_def async_simple_search_ordered_def
      async_simple_search_def request_post_data_calls Let_def)

text \<open>
  C8, amended, at the query "benzene" ordered by \<open>csid\<close>: descending, with no direction,
  and with the empty string for a direction; and with the empty string for an order and
  no direction.
\<close>

theorem search_chooses_submission_witness:
  "search_func (search example_client (PyStr ''benzene'') (Some (PyStr ''csid''))
      (Some (PyStr ''descending'')) None) = Async_simple_search_ordered \<and>
   search_args (search example_client (PyStr ''benzene'') (Some (PyStr ''csid''))
      (Some (PyStr ''descending'')) None)
     = [PyStr ''benzene'', PyStr ''csid'', PyStr ''descending''] \<and>
   search_func (search example_client (PyStr ''benzene'') (Some (PyStr ''csid'')) None None)
     = Async_simple_search_ordered \<and>
   search_func (search example_client (PyStr ''benzene'') (Some (PyStr ''csid''))
      (Some (PyStr '''')) None) = Async_simple_search \<and>
   search_func (search example_client (PyStr ''benzene'') (Some (PyStr '''')) None None)
     = Async_simple_search \<and>
   search_args (search example_client (PyStr ''benzene'') (Some (PyStr '''')) None None)
     = [PyStr ''benzene'']"
proof -
  have t: "truthy (PyStr ''csid'')" "truthy (PyStr ''descending'')" "\<not> truthy (PyStr '''')"
    by simp_all
  note a = search_chooses_submission [where order = "PyStr ''csid''"
      and direction = "PyStr ''descending''" and self = example_client
      and query = "PyStr ''benzene''" and re = None]
  note b = search_chooses_submission [where order = "PyStr ''csid''"
      and direction = "PyStr ''''" and self = example_client
      and query = "PyStr ''benzene''" and re = None]
  note c = search_chooses_submission [where order = "PyStr ''''"
      and direction = "PyStr ''''" and self = example_client
      and query = "PyStr ''benzene''" and re = None]
  from a t have "search example_client (PyStr ''benzene'') (Some (PyStr ''csid''))
      (Some (PyStr ''descending'')) None =
        \<lparr>cs = example_client, search_func = Async_simple_search_ordered,
         search_args = [PyStr ''benzene'', PyStr ''csid'', PyStr ''descending''],
         raise_errors = default_to (PyBool False) None\<rparr>"
    by blast
  moreover from a t have "search example_client (PyStr ''benzene'') (Some (PyStr ''csid'')) None None =
        \<lparr>cs = example_client, search_func = Async_simple_search_ordered,
         search_args = [PyStr ''benzene'', PyStr ''csid'', PyStr ''ascending''],
         raise_errors = default_to (PyBool False) None\<rparr>"
    by blast
  moreover from b t have "search example_client (PyStr ''benzene'') (Some (PyStr ''csid''))
      (Some (PyStr '''')) None =
        \<lparr>cs = example_client, search_func = Async_simple_search, search_args = [PyStr ''benzene''],
         raise_errors = default_to (PyBool False) None\<rparr>"
    by blast
  moreover from c t have "search example_client (PyStr ''benzene'') (Some (PyStr '''')) None None =
        \<lparr>cs = example_client, search_func = Async_simple_search, search_args = [PyStr ''benzene''],
         raise_errors = default_to (PyBool False) None\<rparr>"
    by blast
  ultimately show ?thesis by simp
qed

subsection \<open>The \<open>datasources\<close> argument of the formula and mass searches\<close>

text \<open>
  C9. For every true (non-empty) \<open>datasources\<close>, \<open>simple_search_by_formula\<close> and
  \<open>simple_search_by_mass\<close> fail with \<open>NameError\<close> on \<open>data\<close> before any call is handed to
  the HTTP library; with \<open>datasources\<close> left out, the one call made is a \<open>POST\<close> whose body
  holds the formula only, respectively the mass and the range only.
\<close>

theorem datasources_unbound_name:
  "(truthy datasources \<longrightarrow>
      simple_search_by_formula env formula (Some datasources) self calls =
        (Inl (NameError ''data''), self, calls) \<and>
      simple_search_by_mass env mass mass_range (Some datasources) self calls =
        (Inl (NameError ''data''), self, calls)) \<and>
   snd (snd (simple_search_by_formula env formula None self calls)) =
     calls @ [\<lparr>verb = POST, url = Url (api_url self) [PyStr ''filter'', PyStr ''formula''] None,
               json = Some (PyDict [(''formula'', formula)]),
               sent_headers = (headers self)(''apikey'' \<mapsto> apikey self),
               via_session = True\<rparr>] \<and>
   snd (snd (simple_search_by_mass env mass mass_range None self calls)) =
     calls @ [\<lparr>verb = POST, url = Url (api_url self) [PyStr ''filter'', PyStr ''mass''] None,
               json = Some (PyDict [(''mass'', mass), (''range'', mass_range)]),
               sent_headers = (headers self)(''apikey'' \<mapsto> apikey self),
               via_session = True\<rparr>]"
  by (simp add: simple_search_by_formula_def simple_search_by_mass_def default_to_def
      then_compound_list_calls request_post_data_calls)

text \<open>C9, at the data source list \<open>['PubChem']\<close>.\<close>

theorem datasources_unbound_name_witness:
  "simple_search_by_formula
     \<lparr>remote = answer (Response 200 ''[]''), json_loads = decode_as (Inr (PyList []))\<rparr>
     (PyStr ''C6H6'') (Some (PyList [PyStr ''PubChem''])) example_client []
     = (Inl (NameError ''data''), example_client, []) \<and>
   simple_search_by_mass
     \<lparr>remote = answer (Response 200 ''[]''), json_loads = decode_as (Inr (PyList []))\<rparr>
     (PyInt 78) (PyInt 1) (Some (PyList [PyStr ''PubChem''])) example_client []
     = (Inl (NameError ''data''), example_client, [])"
proof -
  have t: "truthy (PyList [PyStr ''PubChem''])" by simp
  from t datasources_unbound_name [where datasources = "PyList [PyStr ''PubChem'']"
      and env = "\<lparr>remote = answer (Response 200 ''[]''), json_loads = decode_as (Inr (PyList []))\<rparr>"
      and formula = "PyStr ''C6H6''" and mass = "PyInt 78" and mass_range = "PyInt 1"
      and self = example_client and calls = "[]"]
  show ?thesis by blast
qed

subsection \<open>Verbs other than \<open>GET\<close> and \<open>POST\<close>\<close>

text \<open>
  C10, as stated: for every verb other than \<open>'GET'\<close> and \<open>'POST'\<close> the call fails with
  \<open>UnboundLocalError\<close> on \<open>response\<close>. It fails for
  \<open>request('records', 'details', 'PUT', record_id=5, fields=5)\<close>: the URL is built
  before the verb is looked at, and joining the fields raises \<open>TypeError\<close>.
\<close>

theorem request_put_fields_counterexample:
  "request \<lparr>remote = answer (Response 200 ''{}''), json_loads = decode_as (Inr (PyDict []))\<rparr>
     [PyStr ''records'', PyStr ''details'', PyStr ''PUT'']
     [(''record_id'', PyInt 5), (''fields'', PyInt 5)] example_client []
   = (Inl (TypeError NotIterable), example_client, [])"
  by (simp add: request_def bind_record_id_fields request_body_def build_url_def
      comma_join_def)

text \<open>
  C10, amended: when the verb of a call of \<open>request\<close> is neither \<open>'GET'\<close> nor \<open>'POST'\<close>, no
  call is handed to the HTTP library, the client is unchanged, and the call fails with a
  built-in error, none of the error kinds of the package: with \<open>UnboundLocalError\<close> on
  \<open>response\<close> whenever the URL can be built, which is so when the record id is false, when
  there is no \<open>fields\<close> keyword, and when \<open>fields\<close> is a list of strings; and otherwise with
  the \<open>TypeError\<close> that joining the fields raised.
\<close>

theorem request_other_verb_fails:
  assumes "bind_request args kwargs = Inr a"
    and "http_verb a \<noteq> PyStr ''GET''" and "http_verb a \<noteq> PyStr ''POST''"
  shows "(\<exists>e. request env args kwargs self calls = (Inl e, self, calls) \<and>
              (e = UnboundLocalError ''response'' \<or> e = TypeError NotIterable \<or>
               e = TypeError JoinItem)) \<and>
         ((\<exists>u. build_url self a = Inr u) \<longrightarrow>
            request env args kwargs self calls =
              (Inl (UnboundLocalError ''response''), self, calls)) \<and>
         (\<not> truthy (record_id a) \<or> map_of (params a) ''fields'' = None \<or>
          (\<exists>fs. map_of (params a) ''fields'' = Some (PyList (map PyStr fs))) \<longrightarrow>
            request env args kwargs self calls =
              (Inl (UnboundLocalError ''response''), self, calls)) \<and>
         (\<forall>e. build_url self a = Inl e \<longrightarrow>
            request env args kwargs self calls = (Inl e, self, calls) \<and>
            (e = TypeError NotIterable \<or> e = TypeError JoinItem))"
proof -
  have r: "request env args kwargs self calls =
      (Inl (case build_url self a of Inl e \<Rightarrow> e | Inr u \<Rightarrow> UnboundLocalError ''response''),
       self, calls)"
    by (rule request_other_verb_no_call [OF assms])
  have built: "request env args kwargs self calls =
      (Inl (UnboundLocalError ''response''), self, calls)"
    if "build_url self a = Inr u" for u
    using that by (simp add: r)
  have failed: "request env args kwargs self calls = (Inl e, self, calls) \<and>
      (e = TypeError NotIterable \<or> e = TypeError JoinItem)"
    if "build_url self a = Inl e" for e
    using that build_url_error [OF that] by (simp add: r)
  have falsy: "\<exists>u. build_url self a = Inr u" if "\<not> truthy (record_id a)"
    using that by (simp add: build_url_def)
  have fields: "\<exists>u. build_url self a = Inr u"
    if "map_of (params a) ''fields'' = None \<or>
        (\<exists>fs. map_of (params a) ''fields'' = Some (PyList (map PyStr fs)))"
    using that build_url_fields_ok [of a _ self] by blast
  have some: "\<exists>e. request env args kwargs self calls = (Inl e, self, calls) \<and>
              (e = UnboundLocalError ''response'' \<or> e = TypeError NotIterable \<or>
               e = TypeError JoinItem)"
  proof (cases "build_url self a")
    case (Inl e)
    with failed show ?thesis by blast
  next
    case (Inr u)
    with built show ?thesis by blast
  qed
  from some built failed falsy fields show ?thesis by blast
qed

text \<open>
  C10, amended, at the verb \<open>'PUT'\<close>: with positional arguments only, and with a record id
  and the number 5 for the fields.
\<close>

theorem request_other_verb_fails_witness:
  "request \<lparr>remote = answer (Response 200 ''{}''), json_loads = decode_as (Inr (PyDict []))\<rparr>
     [PyStr ''filter'', PyStr ''name'', PyStr ''PUT''] [] example_client []
   = (Inl (UnboundLocalError ''response''), example_client, []) \<and>
   request \<lparr>remote = answer (Response 200 ''{}''), json_loads = decode_as (Inr (PyDict []))\<rparr>
     [PyStr ''records'', PyStr ''details'', PyStr ''PUT'']
     [(''record_id'', PyInt 5), (''fields'', PyInt 5)] example_client []
   = (Inl (TypeError NotIterable), example_client, [])"
proof -
  let ?env = "\<lparr>remote = answer (Response 200 ''{}''), json_loads = decode_as (Inr (PyDict []))\<rparr>"
  let ?a = "\<lparr>api = PyStr ''filter'', endpoint = PyStr ''name'', http_verb = PyStr ''PUT'',
             record_id = PyNone, params = []\<rparr>"
  let ?b = "\<lparr>api = PyStr ''records'', endpoint = PyStr ''details'', http_verb = PyStr ''PUT'',
             record_id = PyInt 5, params = [(''fields'', PyInt 5)]\<rparr>"
  have ga: "http_verb ?a \<noteq> PyStr ''GET''" and pa: "http_verb ?a \<noteq> PyStr ''POST''"
    and gb: "http_verb ?b \<noteq> PyStr ''GET''" and pb: "http_verb ?b \<noteq> PyStr ''POST''"
    by simp_all
  have ua: "\<exists>u. build_url example_client ?a = Inr u"
    by (simp add: build_url_def)
  have ub: "build_url example_client ?b = Inl (TypeError NotIterable)"
    by (simp add: build_url_def comma_join_def)
  from request_other_verb_fails [OF bind_positional ga pa, of ?env example_client "[]"] ua
  have "request ?env [PyStr ''filter'', PyStr ''name'', PyStr ''PUT''] [] example_client []
      = (Inl (UnboundLocalError ''response''), example_client, [])"
    by blast
  moreover from request_other_verb_fails [OF bind_record_id_fields gb pb, of ?env example_client "[]"] ub
  have "request ?env [PyStr ''records'', PyStr ''details'', PyStr ''PUT'']
      [(''record_id'', PyInt 5), (''fields'', PyInt 5)] example_client []
      = (Inl (TypeError NotIterable), example_client, [])"
    by blast
  ultimately show ?thesis by simp
qed

end
